theory Spec2Isabelle
  imports Complex_Main
begin

section \<open>Data model (App.tsx, types and constants)\<close>

datatype GameMode = MENU | PRACTICE_SETUP | PLAYING | RESULTS

datatype PlayType = PRACTICE | TEST

text \<open>
  The JavaScript numbers that reach the scoring logic are integers (table entries,
  factors, products, parsed input) or \<open>NaN\<close> (\<open>parseInt\<close> of an unparsable text,
  \<open>undefined * b\<close>).  \<open>undefined\<close> and \<open>null\<close> are the \<open>None\<close> of an option type.
\<close>

datatype jsnum = Num int | NaN

record Question =
  q_a :: "int option"
  q_b :: int
  q_answer :: jsnum
  q_table :: "int option"

record Result =
  question :: Question
  userAnswer :: "jsnum option"
  isCorrect :: bool
  timeTaken :: rat
  points :: int

record HistoryEntry =
  h_id :: int
  h_date :: int
  h_type :: PlayType
  h_score :: nat
  h_total :: nat
  h_points :: int
  h_isPassed :: bool

definition MAX_TIME_PER_QUESTION :: int where
  "MAX_TIME_PER_QUESTION = 6"

definition MAX_POINTS_PER_QUESTION :: int where
  "MAX_POINTS_PER_QUESTION = 6"

definition TEST_QUESTION_COUNT :: nat where
  "TEST_QUESTION_COUNT = 40"

definition PASS_SCORE_THRESHOLD :: nat where
  "PASS_SCORE_THRESHOLD = 36"

definition PASS_SPEED_THRESHOLD :: int where
  "PASS_SPEED_THRESHOLD = 120"

subsection \<open>JavaScript primitives used by the logic\<close>

text \<open>\<open>xs[k]\<close>: reading outside the array gives \<open>undefined\<close>.\<close>

definition js_index :: "'a list \<Rightarrow> int \<Rightarrow> 'a option" where
  "js_index xs k = (if 0 \<le> k \<and> k < int (length xs) then Some (xs ! nat k) else None)"

text \<open>\<open>a * b\<close> where \<open>a\<close> may be \<open>undefined\<close>: \<open>undefined * b\<close> is \<open>NaN\<close>.\<close>

fun js_mult :: "int option \<Rightarrow> int \<Rightarrow> jsnum" where
  "js_mult (Some x) y = Num (x * y)"
| "js_mult None y = NaN"

text \<open>
  \<open>val === answer\<close> for \<open>val: number | null\<close>: \<open>null\<close> equals no number, and
  \<open>NaN\<close> equals nothing, itself included.
\<close>

fun strict_eq :: "jsnum option \<Rightarrow> jsnum \<Rightarrow> bool" where
  "strict_eq (Some (Num x)) (Num y) = (x = y)"
| "strict_eq _ _ = False"

section \<open>Question generation (generateQuestions)\<close>

text \<open>
  \<open>Math.random()\<close> is a stream of draws \<open>rnd 0, rnd 1, \<dots>\<close>; iteration \<open>i\<close> of the
  loop takes draw \<open>2 * i\<close> for the table and draw \<open>2 * i + 1\<close> for the second factor.
\<close>

function generateQuestions_loop ::
  "(nat \<Rightarrow> rat) \<Rightarrow> int list \<Rightarrow> nat \<Rightarrow> Question list \<Rightarrow> Question list" where
  "generateQuestions_loop rnd tables i qList =
     (if i < TEST_QUESTION_COUNT then
        (let a = js_index tables \<lfloor>rnd (2 * i) * of_nat (length tables)\<rfloor>;
             b = \<lfloor>rnd (2 * i + 1) * 10\<rfloor> + 1
         in generateQuestions_loop rnd tables (i + 1)
              (qList @ [\<lparr>q_a = a, q_b = b, q_answer = js_mult a b, q_table = a\<rparr>]))
      else qList)"
  by pat_completeness auto
termination
  by (relation "measure (\<lambda>(rnd, tables, i, qList). TEST_QUESTION_COUNT - i)") auto

declare generateQuestions_loop.simps [simp del]

definition generateQuestions :: "PlayType \<Rightarrow> int list \<Rightarrow> (nat \<Rightarrow> rat) \<Rightarrow> Question list" where
  "generateQuestions type tables rnd = generateQuestions_loop rnd tables 0 []"

section \<open>Session state\<close>

datatype Feedback = Correct | Wrong | Timeout

datatype error = TypeError

text \<open>
  The values a render of \<open>App\<close> gives to the closures it creates: \<open>nextQuestion\<close>
  reads \<open>currentIndex\<close>, \<open>questions\<close> and \<open>playType\<close> of the render in which
  \<open>handleAnswer\<close> scheduled it, not those of the moment it runs.
\<close>

record Closure =
  c_currentIndex :: nat
  c_questions :: "Question list"
  c_playType :: PlayType

text \<open>A callback armed by \<open>setTimeout\<close> in \<open>handleAnswer\<close> and not yet run.\<close>

record Pending =
  p_delay :: nat
  p_env :: Closure
  p_results :: "Result list"

text \<open>
  The \<open>useState\<close> cells of \<open>App\<close>, the \<open>startTimeRef\<close> cell and the armed
  \<open>setTimeout\<close> callbacks.  Times are milliseconds as \<open>Date.now()\<close> returns them;
  \<open>timeTaken\<close> and \<open>timeLeft\<close> are exact rationals.  The colour table is
  presentation only and left out.  The effect on \<open>[history]\<close> writes the whole list to
  local storage after every change, so the stored list is \<open>history\<close>.
\<close>

record State =
  mode :: GameMode
  playType :: PlayType
  selectedTables :: "int list"
  questions :: "Question list"
  currentIndex :: nat
  results :: "Result list"
  userInput :: string
  timeLeft :: rat
  showFeedback :: bool
  feedbackType :: "Feedback option"
  lastFeedback :: "(bool \<times> jsnum) option"
  history :: "HistoryEntry list"
  startTimeRef :: int
  pending :: "Pending list"

text \<open>State after mount; \<open>h\<close> is the history read from local storage (empty if none).\<close>

definition init :: "HistoryEntry list \<Rightarrow> State" where
  "init h = \<lparr>mode = MENU, playType = PRACTICE, selectedTables = [], questions = [],
     currentIndex = 0, results = [], userInput = [], timeLeft = of_int MAX_TIME_PER_QUESTION,
     showFeedback = False, feedbackType = None, lastFeedback = None, history = h,
     startTimeRef = 0, pending = []\<rparr>"

section \<open>Operations\<close>

definition resetQuestionState :: "int \<Rightarrow> State \<Rightarrow> State" where
  "resetQuestionState now s =
     s\<lparr>userInput := [], timeLeft := of_int MAX_TIME_PER_QUESTION, showFeedback := False,
       feedbackType := None, startTimeRef := now\<rparr>"

definition startSession :: "PlayType \<Rightarrow> int list \<Rightarrow> (nat \<Rightarrow> rat) \<Rightarrow> int \<Rightarrow> State \<Rightarrow> State" where
  "startSession type tables rnd now s =
     resetQuestionState now
       (s\<lparr>questions := generateQuestions type tables rnd, playType := type,
          currentIndex := 0, results := [], mode := PLAYING\<rparr>)"

text \<open>
  \<open>handleAnswer\<close>: \<open>val\<close> is \<open>None\<close> for \<open>null\<close> (the timer ran out).  Reading
  \<open>currentQ.answer\<close> of an \<open>undefined\<close> question throws.  Sound and confetti are left out.
\<close>

definition handleAnswer :: "jsnum option \<Rightarrow> int \<Rightarrow> State \<Rightarrow> error + State" where
  "handleAnswer val now s =
     (if showFeedback s then Inr s
      else case js_index (questions s) (int (currentIndex s)) of
        None \<Rightarrow> Inl TypeError
      | Some currentQ \<Rightarrow>
          (let is_correct = strict_eq val (q_answer currentQ);
               is_timeout = (val = None);
               time_taken = of_int (now - startTimeRef s) / 1000;
               fb = (if is_correct then Correct else if is_timeout then Timeout else Wrong);
               pts = (if is_correct
                      then max 1 \<lceil>of_int MAX_POINTS_PER_QUESTION
                                    * (1 - time_taken / of_int MAX_TIME_PER_QUESTION)\<rceil>
                      else 0);
               result = \<lparr>question = currentQ, userAnswer = val, isCorrect = is_correct,
                          timeTaken = time_taken, points = pts\<rparr>;
               newResults = results s @ [result];
               delay = (if is_correct then 800 else 2000)
           in Inr (s\<lparr>feedbackType := Some fb, results := newResults,
                     lastFeedback := Some (is_correct, q_answer currentQ),
                     showFeedback := True,
                     pending := pending s @
                       [\<lparr>p_delay = delay,
                         p_env = \<lparr>c_currentIndex = currentIndex s, c_questions = questions s,
                                   c_playType = playType s\<rparr>,
                         p_results = newResults\<rparr>]\<rparr>)))"

text \<open>
  \<open>nextQuestion\<close>, run with the closure \<open>env\<close> of the render that scheduled it.  The
  updates of \<open>currentIndex\<close> and \<open>history\<close> are functional (\<open>prev => \<dots>\<close>) and so apply
  to the state at the time of the call.  \<open>id\<close> and \<open>date\<close> are both made from the
  current instant; their text formatting is left out.
\<close>

definition nextQuestion :: "Closure \<Rightarrow> Result list \<Rightarrow> int \<Rightarrow> State \<Rightarrow> State" where
  "nextQuestion env currentResults now s =
     (if int (c_currentIndex env) < int (length (c_questions env)) - 1 then
        resetQuestionState now (s\<lparr>currentIndex := currentIndex s + 1\<rparr>)
      else
        (let totalCorrect = length (filter isCorrect currentResults);
             totalPoints = foldl (\<lambda>sum r. sum + points r) 0 currentResults;
             passed = (c_playType env = TEST \<and>
                        (PASS_SCORE_THRESHOLD \<le> totalCorrect \<or> PASS_SPEED_THRESHOLD \<le> totalPoints));
             newEntry = \<lparr>h_id = now, h_date = now, h_type = c_playType env,
                          h_score = totalCorrect, h_total = length (c_questions env),
                          h_points = totalPoints, h_isPassed = passed\<rparr>
         in s\<lparr>mode := RESULTS, history := take 20 (newEntry # history s)\<rparr>))"

definition toggleTable :: "int \<Rightarrow> State \<Rightarrow> State" where
  "toggleTable t s =
     s\<lparr>selectedTables :=
         (if t \<in> set (selectedTables s) then filter (\<lambda>x. x \<noteq> t) (selectedTables s)
          else selectedTables s @ [t])\<rparr>"

subsection \<open>Statistics of the results screen\<close>

text \<open>
  The \<open>stats\<close> memo, \<open>null\<close> (\<open>None\<close>) while there are no results.  Its
  \<open>needsPractice\<close> field plays no part in pass or fail and is left out.
\<close>

record Stats =
  totalCorrect :: nat
  totalPoints :: int
  wrongAnswers :: "Result list"

definition stats :: "Result list \<Rightarrow> Stats option" where
  "stats rs =
     (if length rs = 0 then None
      else Some \<lparr>totalCorrect = length (filter isCorrect rs),
                 totalPoints = foldl (\<lambda>sum r. sum + points r) 0 rs,
                 wrongAnswers = filter (\<lambda>r. \<not> isCorrect r) rs\<rparr>)"

text \<open>
  \<open>isPassed = playType === TEST && stats && (\<dots>)\<close>: \<open>false\<close> outside a test, \<open>null\<close>
  (\<open>None\<close>) without statistics, a boolean otherwise.  The screen tests its truthiness.
\<close>

definition isPassed :: "PlayType \<Rightarrow> Result list \<Rightarrow> bool option" where
  "isPassed pt rs =
     (if pt = TEST then
        (case stats rs of
           None \<Rightarrow> None
         | Some st \<Rightarrow> Some (PASS_SCORE_THRESHOLD \<le> totalCorrect st
                             \<or> PASS_SPEED_THRESHOLD \<le> totalPoints st))
      else Some False)"

definition truthy :: "bool option \<Rightarrow> bool" where
  "truthy v = (v = Some True)"

section \<open>Events\<close>

text \<open>
  What the browser can deliver: clicks and key strokes on the elements the current
  screen renders, a tick of the countdown interval, and the expiry of an armed
  \<open>setTimeout\<close>.  An event on an element that is not rendered, or that is disabled,
  leaves the state as it is.  Events that end in \<open>handleAnswer(parseInt(text))\<close> carry
  the parsed value \<open>v\<close>; every event that reads the clock carries \<open>Date.now()\<close>.
\<close>

datatype Event =
    ClickPractice
  | ClickTest
  | ClearHistory
  | ToggleTable int
  | ClickCancel
  | ClickStart "nat \<Rightarrow> rat" int
  | InputChange string jsnum int
  | PressEnter jsnum int
  | ClickDigit char jsnum int
  | ClickClear
  | ClickOK jsnum int
  | Tick int
  | TimeoutFire nat int
  | ClickLogo
  | ClickBackToMenu

text \<open>\<open>renderPlaying\<close> shows the question card only if \<open>questions[currentIndex]\<close> exists.\<close>

definition currentQ :: "State \<Rightarrow> Question option" where
  "currentQ s = (if mode s = PLAYING then js_index (questions s) (int (currentIndex s)) else None)"

text \<open>The condition under which the timer effect keeps the 100 ms interval armed.\<close>

definition timerRunning :: "State \<Rightarrow> bool" where
  "timerRunning s = (mode s = PLAYING \<and> \<not> showFeedback s \<and> playType s = TEST)"

definition setTimeLeft0 :: "State \<Rightarrow> State" where
  "setTimeLeft0 s = s\<lparr>timeLeft := 0\<rparr>"

fun step :: "Event \<Rightarrow> State \<Rightarrow> error + State" where
  "step ClickPractice s =
     Inr (if mode s = MENU then s\<lparr>playType := PRACTICE, mode := PRACTICE_SETUP\<rparr> else s)"
| "step ClickTest s =
     Inr (if mode s = MENU then s\<lparr>playType := TEST, mode := PRACTICE_SETUP\<rparr> else s)"
| "step ClearHistory s =
     Inr (if mode s = MENU \<and> history s \<noteq> [] then s\<lparr>history := []\<rparr> else s)"
| "step (ToggleTable t) s =
     Inr (if mode s = PRACTICE_SETUP \<and> 1 \<le> t \<and> t \<le> 10 then toggleTable t s else s)"
| "step ClickCancel s =
     Inr (if mode s = PRACTICE_SETUP then s\<lparr>mode := MENU\<rparr> else s)"
| "step (ClickStart rnd now) s =
     Inr (if mode s = PRACTICE_SETUP \<and> selectedTables s \<noteq> []
          then startSession (playType s) (selectedTables s) rnd now s else s)"
| "step (InputChange text v now) s =
     (case currentQ s of
        None \<Rightarrow> Inr s
      | Some q \<Rightarrow>
          if showFeedback s then Inr s
          else if strict_eq (Some v) (q_answer q) then handleAnswer (Some v) now (s\<lparr>userInput := text\<rparr>)
          else Inr (s\<lparr>userInput := text\<rparr>))"
| "step (PressEnter v now) s =
     (case currentQ s of
        None \<Rightarrow> Inr s
      | Some q \<Rightarrow>
          if showFeedback s then Inr s
          else if userInput s \<noteq> [] then handleAnswer (Some v) now s
          else Inr s)"
| "step (ClickDigit c v now) s =
     (case currentQ s of
        None \<Rightarrow> Inr s
      | Some q \<Rightarrow>
          if showFeedback s then Inr s
          else if strict_eq (Some v) (q_answer q)
               then handleAnswer (Some v) now (s\<lparr>userInput := userInput s @ [c]\<rparr>)
          else Inr (s\<lparr>userInput := userInput s @ [c]\<rparr>))"
| "step ClickClear s =
     (case currentQ s of None \<Rightarrow> Inr s | Some q \<Rightarrow> Inr (s\<lparr>userInput := []\<rparr>))"
| "step (ClickOK v now) s =
     (case currentQ s of None \<Rightarrow> Inr s | Some q \<Rightarrow> handleAnswer (Some v) now s)"
| "step (Tick now) s =
     (if timerRunning s then
        (if timeLeft s \<le> 1 / 10 then map_sum id setTimeLeft0 (handleAnswer None now s)
         else Inr (s\<lparr>timeLeft := timeLeft s - 1 / 10\<rparr>))
      else Inr s)"
| "step (TimeoutFire k now) s =
     Inr (if k < length (pending s) then
            nextQuestion (p_env (pending s ! k)) (p_results (pending s ! k)) now
              (s\<lparr>pending := take k (pending s) @ drop (Suc k) (pending s)\<rparr>)
          else s)"
| "step ClickLogo s = Inr (s\<lparr>mode := MENU\<rparr>)"
| "step ClickBackToMenu s =
     Inr (if mode s = RESULTS \<and> stats (results s) \<noteq> None then s\<lparr>mode := MENU\<rparr> else s)"

fun run :: "Event list \<Rightarrow> State \<Rightarrow> error + State" where
  "run [] s = Inr s"
| "run (e # es) s = (case step e s of Inl x \<Rightarrow> Inl x | Inr s' \<Rightarrow> run es s')"




section \<open>Sample data for the examples\<close>

text \<open>
  A test on table 7 in which every random draw is \<open>1/2\<close>: each of the 40 questions is
  \<open>7 \<times> 6\<close>.  \<open>sample_start\<close> are the clicks that start it, \<open>sample_playing\<close> is the
  state right after the start button.
\<close>

definition sample_question :: Question where
  "sample_question = \<lparr>q_a = Some 7, q_b = 6, q_answer = Num 42, q_table = Some 7\<rparr>"

definition sample_result :: "bool \<Rightarrow> int \<Rightarrow> Result" where
  "sample_result ok p =
     \<lparr>question = sample_question, userAnswer = (if ok then Some (Num 42) else None),
       isCorrect = ok, timeTaken = 1 / 2, points = p\<rparr>"

definition sample_env :: "PlayType \<Rightarrow> Closure" where
  "sample_env pt =
     \<lparr>c_currentIndex = 39, c_questions = replicate 40 sample_question, c_playType = pt\<rparr>"



definition sample_setup :: State where
  "sample_setup = (init [])\<lparr>playType := TEST, mode := PRACTICE_SETUP\<rparr>"

definition sample_playing :: State where
  "sample_playing = startSession TEST [7] (\<lambda>k. 1 / 2) 0 ((init [])\<lparr>selectedTables := [7]\<rparr>)"

definition sample_start :: "Event list" where
  "sample_start = [ClickTest, ToggleTable 7, ClickStart (\<lambda>k. 1 / 2) 0]"

text \<open>
  Round \<open>k\<close> of the sample session: question \<open>k\<close> is answered correctly half a second
  after it appeared, and 800 ms later the feedback delay expires.  \<open>sample_after k\<close> is
  the state after \<open>k\<close> rounds.
\<close>

definition sample_round :: "nat \<Rightarrow> Event list" where
  "sample_round k =
     [ClickOK (Num 42) (1300 * int k + 500), TimeoutFire 0 (1300 * int k + 1300)]"

definition sample_rounds :: "nat \<Rightarrow> Event list" where
  "sample_rounds n = concat (map sample_round [0..<n])"

definition sample_after :: "nat \<Rightarrow> State" where
  "sample_after k =
     sample_playing\<lparr>currentIndex := k, results := replicate k (sample_result True 6),
       lastFeedback := (if k = 0 then None else Some (True, Num 42)),
       startTimeRef := 1300 * int k\<rparr>"

section \<open>Question generation: 40 well-formed questions\<close>

lemma generateQuestions_loop_eq:
  "i \<le> TEST_QUESTION_COUNT \<Longrightarrow>
   generateQuestions_loop rnd tables i qList =
     qList @ map (\<lambda>k. let a = js_index tables \<lfloor>rnd (2 * k) * of_nat (length tables)\<rfloor>;
                           b = \<lfloor>rnd (2 * k + 1) * 10\<rfloor> + 1
                       in \<lparr>q_a = a, q_b = b, q_answer = js_mult a b, q_table = a\<rparr>)
                 [i..<TEST_QUESTION_COUNT]"
proof (induction rnd tables i qList rule: generateQuestions_loop.induct)
  case (1 rnd tables i qList)
  show ?case
  proof (cases "i < TEST_QUESTION_COUNT")
    case True
    then have "[i..<TEST_QUESTION_COUNT] = i # [i + 1..<TEST_QUESTION_COUNT]"
      by (simp add: upt_conv_Cons)
    with True 1 show ?thesis
      by (subst generateQuestions_loop.simps) (simp add: Let_def)
  next
    case False
    with 1 show ?thesis
      by (subst generateQuestions_loop.simps) simp
  qed
qed

lemma generateQuestions_eq:
  "generateQuestions type tables rnd =
     map (\<lambda>k. let a = js_index tables \<lfloor>rnd (2 * k) * of_nat (length tables)\<rfloor>;
                   b = \<lfloor>rnd (2 * k + 1) * 10\<rfloor> + 1
               in \<lparr>q_a = a, q_b = b, q_answer = js_mult a b, q_table = a\<rparr>)
         [0..<TEST_QUESTION_COUNT]"
  by (simp add: generateQuestions_def generateQuestions_loop_eq)

lemma length_generateQuestions: "length (generateQuestions type tables rnd) = 40"
  by (simp add: generateQuestions_eq TEST_QUESTION_COUNT_def)

lemma nth_generateQuestions:
  "k < 40 \<Longrightarrow>
   generateQuestions type tables rnd ! k =
     (let a = js_index tables \<lfloor>rnd (2 * k) * of_nat (length tables)\<rfloor>;
          b = \<lfloor>rnd (2 * k + 1) * 10\<rfloor> + 1
      in \<lparr>q_a = a, q_b = b, q_answer = js_mult a b, q_table = a\<rparr>)"
  by (simp add: generateQuestions_eq TEST_QUESTION_COUNT_def)

lemma floor_random_index:
  fixes r :: rat
  assumes "0 \<le> r" "r < 1" "0 < n"
  shows "0 \<le> \<lfloor>r * of_nat n\<rfloor> \<and> \<lfloor>r * of_nat n\<rfloor> < int n"
proof -
  have "r * of_nat n < of_nat n" using assms by simp
  then have "\<lfloor>r * of_nat n\<rfloor> < int n" by (simp add: floor_less_iff)
  moreover have "0 \<le> r * of_nat n" using assms by simp
  ultimately show ?thesis by simp
qed

lemma questions_startSession:
  "questions (startSession type tables rnd now s) = generateQuestions type tables rnd"
  by (simp add: startSession_def resetQuestionState_def)

text \<open>
  C3. Every session start, practice or test, with a non-empty list of selected tables and
  random draws in \<open>[0, 1)\<close> leaves exactly 40 questions in the state, and each of them
  has a table that is one of the selected ones, that table as its first factor, a second
  factor from 1 to 10, and the product of the two factors as its answer.
\<close>

theorem startSession_questions_wellformed:
  assumes "tables \<noteq> []" and "\<forall>k. 0 \<le> rnd k \<and> rnd k < 1"
  shows "length (questions (startSession type tables rnd now s)) = 40 \<and>
         (\<forall>q \<in> set (questions (startSession type tables rnd now s)).
            \<exists>t. t \<in> set tables \<and> q_table q = Some t \<and> q_a q = Some t \<and>
                1 \<le> q_b q \<and> q_b q \<le> 10 \<and> q_answer q = Num (t * q_b q))"
proof -
  have idx: "0 \<le> \<lfloor>rnd k * of_nat (length tables)\<rfloor> \<and>
             \<lfloor>rnd k * of_nat (length tables)\<rfloor> < int (length tables)" for k
    using assms floor_random_index [of "rnd k" "length tables"] by simp
  have fac: "1 \<le> \<lfloor>rnd k * 10\<rfloor> + 1 \<and> \<lfloor>rnd k * 10\<rfloor> + 1 \<le> 10" for k
    using assms floor_random_index [of "rnd k" 10] by simp
  have "\<exists>t. t \<in> set tables \<and> q_table q = Some t \<and> q_a q = Some t \<and>
            1 \<le> q_b q \<and> q_b q \<le> 10 \<and> q_answer q = Num (t * q_b q)"
    if "q \<in> set (generateQuestions type tables rnd)" for q
  proof -
    from that obtain k where
      q: "q = (let a = js_index tables \<lfloor>rnd (2 * k) * of_nat (length tables)\<rfloor>;
                   b = \<lfloor>rnd (2 * k + 1) * 10\<rfloor> + 1
               in \<lparr>q_a = a, q_b = b, q_answer = js_mult a b, q_table = a\<rparr>)"
      by (auto simp: generateQuestions_eq)
    define j where "j = \<lfloor>rnd (2 * k) * of_nat (length tables)\<rfloor>"
    have j: "0 \<le> j" "j < int (length tables)"
      using idx [of "2 * k"] by (simp_all add: j_def)
    then have mem: "tables ! nat j \<in> set tables" by simp
    have a: "js_index tables j = Some (tables ! nat j)"
      using j by (simp add: js_index_def)
    show ?thesis
      using mem a fac [of "2 * k + 1"] by (simp add: q Let_def j_def [symmetric])
  qed
  then show ?thesis
    by (simp add: questions_startSession length_generateQuestions)
qed

theorem startSession_questions_wellformed_witness:
  "[2, 3] \<noteq> ([] :: int list) \<and> (\<forall>k :: nat. (0 :: rat) \<le> 1 / 2 \<and> (1 / 2 :: rat) < 1) \<and>
   length (questions (startSession TEST [2, 3] (\<lambda>k. 1 / 2) 0 (init []))) = 40 \<and>
   set (questions (startSession TEST [2, 3] (\<lambda>k. 1 / 2) 0 (init [])))
     \<subseteq> {q. \<exists>t. t \<in> set [2, 3] \<and> q_table q = Some t \<and> q_a q = Some t \<and>
                1 \<le> q_b q \<and> q_b q \<le> 10 \<and> q_answer q = Num (t * q_b q)}"
  using startSession_questions_wellformed [of "[2, 3]" "\<lambda>k. 1 / 2" TEST 0 "init []"]
  by auto

section \<open>Facts about the sample data\<close>

lemma js_index_generateQuestions:
  "k < 40 \<Longrightarrow>
   js_index (generateQuestions type tables rnd) (int k) =
     Some (let a = js_index tables \<lfloor>rnd (2 * k) * of_nat (length tables)\<rfloor>;
               b = \<lfloor>rnd (2 * k + 1) * 10\<rfloor> + 1
           in \<lparr>q_a = a, q_b = b, q_answer = js_mult a b, q_table = a\<rparr>)"
  by (simp add: js_index_def length_generateQuestions nth_generateQuestions)

lemma sample_generate: "k < 40 \<Longrightarrow>
  js_index (generateQuestions TEST [7] (\<lambda>k. 1 / 2)) (int k) = Some sample_question"
  by (subst js_index_generateQuestions) (simp_all add: js_index_def sample_question_def Let_def)

lemma sample_playing_simps:
  "mode sample_playing = PLAYING" "playType sample_playing = TEST"
  "selectedTables sample_playing = [7]"
  "questions sample_playing = generateQuestions TEST [7] (\<lambda>k. 1 / 2)"
  "currentIndex sample_playing = 0" "results sample_playing = []"
  "showFeedback sample_playing = False" "startTimeRef sample_playing = 0"
  "pending sample_playing = []" "history sample_playing = []"
  by (simp_all add: sample_playing_def startSession_def resetQuestionState_def init_def)

lemma sample_playing_currentQ:
  "js_index (questions sample_playing) (int (currentIndex sample_playing)) = Some sample_question"
  using sample_generate [of 0] by (simp add: sample_playing_simps)


section \<open>Session completion: pass rule and history\<close>

lemma foldl_points: "foldl (\<lambda>sum r. sum + points r) z rs = z + sum_list (map points rs)"
  by (induction rs arbitrary: z) auto

lemma nextQuestion_complete:
  assumes "\<not> int (c_currentIndex env) < int (length (c_questions env)) - 1"
  shows "nextQuestion env rs now s =
    s\<lparr>mode := RESULTS,
      history := take 20
        (\<lparr>h_id = now, h_date = now, h_type = c_playType env,
          h_score = length (filter isCorrect rs), h_total = length (c_questions env),
          h_points = sum_list (map points rs),
          h_isPassed = (c_playType env = TEST \<and>
             (36 \<le> length (filter isCorrect rs) \<or> 120 \<le> sum_list (map points rs)))\<rparr>
         # history s)\<rparr>"
  using assms
  by (simp add: nextQuestion_def Let_def foldl_points PASS_SCORE_THRESHOLD_def
      PASS_SPEED_THRESHOLD_def)

text \<open>
  C1. When \<open>nextQuestion\<close> completes a session (the answered question was the last one),
  the history entry it writes is marked passed if and only if the session type is Test
  and the number of correct results is at least 36 or the sum of the results' points is
  at least 120.  The entry of a Practice session is never marked passed.
\<close>

theorem nextQuestion_passed:
  assumes "\<not> int (c_currentIndex env) < int (length (c_questions env)) - 1"
  shows "mode (nextQuestion env rs now s) = RESULTS \<and>
         history (nextQuestion env rs now s) \<noteq> [] \<and>
         h_type (hd (history (nextQuestion env rs now s))) = c_playType env \<and>
         h_score (hd (history (nextQuestion env rs now s))) = length (filter isCorrect rs) \<and>
         h_points (hd (history (nextQuestion env rs now s))) = sum_list (map points rs) \<and>
         h_isPassed (hd (history (nextQuestion env rs now s))) =
           (c_playType env = TEST \<and>
             (36 \<le> length (filter isCorrect rs) \<or> 120 \<le> sum_list (map points rs))) \<and>
         (c_playType env = PRACTICE \<longrightarrow> \<not> h_isPassed (hd (history (nextQuestion env rs now s))))"
  by (simp add: nextQuestion_complete [OF assms])

theorem nextQuestion_passed_witness:
  "\<not> int (c_currentIndex (sample_env TEST)) < int (length (c_questions (sample_env TEST))) - 1 \<and>
   h_isPassed (hd (history (nextQuestion (sample_env TEST)
     (replicate 28 (sample_result True 3) @ replicate 8 (sample_result True 2)
        @ replicate 4 (sample_result False 0)) 5 (init [])))) \<and>
   h_isPassed (hd (history (nextQuestion (sample_env TEST)
     (replicate 15 (sample_result True 6) @ replicate 5 (sample_result True 7)
        @ replicate 20 (sample_result False 0)) 5 (init [])))) \<and>
   \<not> h_isPassed (hd (history (nextQuestion (sample_env TEST)
     (replicate 10 (sample_result True 3) @ replicate 10 (sample_result True 2)
        @ replicate 20 (sample_result False 0)) 5 (init [])))) \<and>
   \<not> h_isPassed (hd (history (nextQuestion (sample_env PRACTICE)
     (replicate 40 (sample_result True 6)) 5 (init []))))"
proof -
  have t: "\<not> int (c_currentIndex (sample_env TEST)) < int (length (c_questions (sample_env TEST))) - 1"
    and p: "\<not> int (c_currentIndex (sample_env PRACTICE)) < int (length (c_questions (sample_env PRACTICE))) - 1"
    by (simp_all add: sample_env_def)
  show ?thesis
    using t nextQuestion_passed [OF t, of "replicate 28 (sample_result True 3) @ replicate 8 (sample_result True 2)
        @ replicate 4 (sample_result False 0)" 5 "init []"]
      nextQuestion_passed [OF t, of "replicate 15 (sample_result True 6) @ replicate 5 (sample_result True 7)
        @ replicate 20 (sample_result False 0)" 5 "init []"]
      nextQuestion_passed [OF t, of "replicate 10 (sample_result True 3) @ replicate 10 (sample_result True 2)
        @ replicate 20 (sample_result False 0)" 5 "init []"]
      nextQuestion_passed [OF p, of "replicate 40 (sample_result True 6)" 5 "init []"]
    by (simp add: sample_env_def sample_result_def sum_list_replicate)
qed



text \<open>
  C10. The pass mark stored in the history entry and the pass mark the results screen
  derives from \<open>stats\<close> are two expressions; for the same session type, number of
  correct results and total points they have the same truth value.
\<close>

theorem isPassed_agrees:
  assumes "\<not> int (c_currentIndex env) < int (length (c_questions env)) - 1"
    and "length (filter isCorrect rs') = length (filter isCorrect rs)"
    and "sum_list (map points rs') = sum_list (map points rs)"
  shows "h_isPassed (hd (history (nextQuestion env rs now s))) = truthy (isPassed (c_playType env) rs')"
proof (cases "rs' = []")
  case True
  with assms(2,3) have "length (filter isCorrect rs) = 0" "sum_list (map points rs) = 0"
    by simp_all
  then show ?thesis
    using True by (simp add: nextQuestion_complete [OF assms(1)] isPassed_def stats_def truthy_def)
next
  case False
  then show ?thesis
    using assms(2,3)
    by (simp add: nextQuestion_complete [OF assms(1)] isPassed_def stats_def truthy_def
        foldl_points PASS_SCORE_THRESHOLD_def PASS_SPEED_THRESHOLD_def)
qed

theorem isPassed_agrees_witness:
  "\<not> int (c_currentIndex (sample_env TEST)) < int (length (c_questions (sample_env TEST))) - 1 \<and>
   length (filter isCorrect (replicate 4 (sample_result False 0) @ replicate 36 (sample_result True 1)))
     = length (filter isCorrect (replicate 36 (sample_result True 1))) \<and>
   sum_list (map points (replicate 4 (sample_result False 0) @ replicate 36 (sample_result True 1)))
     = sum_list (map points (replicate 36 (sample_result True 1))) \<and>
   h_isPassed (hd (history (nextQuestion (sample_env TEST) (replicate 36 (sample_result True 1)) 5 (init []))))
     = truthy (isPassed TEST (replicate 4 (sample_result False 0) @ replicate 36 (sample_result True 1))) \<and>
   truthy (isPassed TEST (replicate 4 (sample_result False 0) @ replicate 36 (sample_result True 1)))"
proof -
  have t: "\<not> int (c_currentIndex (sample_env TEST)) < int (length (c_questions (sample_env TEST))) - 1"
    by (simp add: sample_env_def)
  have c: "length (filter isCorrect (replicate 4 (sample_result False 0) @ replicate 36 (sample_result True 1)))
     = length (filter isCorrect (replicate 36 (sample_result True 1)))"
    by (simp add: sample_result_def)
  have p: "sum_list (map points (replicate 4 (sample_result False 0) @ replicate 36 (sample_result True 1)))
     = sum_list (map points (replicate 36 (sample_result True 1)))"
    by (simp add: sample_result_def sum_list_replicate)
  have "c_playType (sample_env TEST) = TEST" by (simp add: sample_env_def)
  then show ?thesis
    using t c p isPassed_agrees [OF t c p, of 5 "init []"]
    by (simp add: isPassed_def stats_def truthy_def foldl_points sample_result_def
        sum_list_replicate PASS_SCORE_THRESHOLD_def PASS_SPEED_THRESHOLD_def)
qed

section \<open>Answer evaluation\<close>

lemma strict_eq_iff: "strict_eq v a \<longleftrightarrow> (\<exists>n. v = Some (Num n) \<and> a = Num n)"
  by (cases "(v, a)" rule: strict_eq.cases) auto

lemma handleAnswer_feedback: "showFeedback s \<Longrightarrow> handleAnswer val now s = Inr s"
  by (simp add: handleAnswer_def)

lemma handleAnswer_fresh:
  assumes "\<not> showFeedback s" and "js_index (questions s) (int (currentIndex s)) = Some q"
    and "r = \<lparr>question = q, userAnswer = val, isCorrect = strict_eq val (q_answer q),
               timeTaken = rat_of_int (now - startTimeRef s) / 1000,
               points = (if strict_eq val (q_answer q)
                         then max 1 \<lceil>6 * (1 - (rat_of_int (now - startTimeRef s) / 1000) / 6)\<rceil>
                         else 0)\<rparr>"
  shows "handleAnswer val now s =
    Inr (s\<lparr>feedbackType :=
              Some (if strict_eq val (q_answer q) then Correct
                    else if val = None then Timeout else Wrong),
            results := results s @ [r],
            lastFeedback := Some (strict_eq val (q_answer q), q_answer q),
            showFeedback := True,
            pending := pending s @
              [\<lparr>p_delay = (if strict_eq val (q_answer q) then 800 else 2000),
                p_env = \<lparr>c_currentIndex = currentIndex s, c_questions = questions s,
                          c_playType = playType s\<rparr>,
                p_results = results s @ [r]\<rparr>]\<rparr>)"
  using assms
  by (simp add: handleAnswer_def Let_def MAX_POINTS_PER_QUESTION_def MAX_TIME_PER_QUESTION_def)

lemma handleAnswer_InrE:
  assumes "handleAnswer val now s = Inr s'" and "\<not> showFeedback s"
  obtains q r where "js_index (questions s) (int (currentIndex s)) = Some q"
    and "r = \<lparr>question = q, userAnswer = val, isCorrect = strict_eq val (q_answer q),
               timeTaken = rat_of_int (now - startTimeRef s) / 1000,
               points = (if strict_eq val (q_answer q)
                         then max 1 \<lceil>6 * (1 - (rat_of_int (now - startTimeRef s) / 1000) / 6)\<rceil>
                         else 0)\<rparr>"
    and "s' = s\<lparr>feedbackType :=
              Some (if strict_eq val (q_answer q) then Correct
                    else if val = None then Timeout else Wrong),
            results := results s @ [r],
            lastFeedback := Some (strict_eq val (q_answer q), q_answer q),
            showFeedback := True,
            pending := pending s @
              [\<lparr>p_delay = (if strict_eq val (q_answer q) then 800 else 2000),
                p_env = \<lparr>c_currentIndex = currentIndex s, c_questions = questions s,
                          c_playType = playType s\<rparr>,
                p_results = results s @ [r]\<rparr>]\<rparr>"
proof -
  from assms obtain q where q: "js_index (questions s) (int (currentIndex s)) = Some q"
    by (auto simp: handleAnswer_def split: option.splits)
  show thesis
    using handleAnswer_fresh [OF assms(2) q refl, of val now] assms(1) q
    by (intro that [OF q refl]) simp
qed

text \<open>
  C2. The result that answer evaluation appends carries the elapsed time
  \<open>(now - start) / 1000\<close> and, if the answer is correct, the points
  \<open>max 1 \<lceil>6 * (1 - timeTaken / 6)\<rceil>\<close>: 6 points at 0 seconds, 1 point at 6 seconds.
  An incorrect answer and a timeout carry 0 points.
\<close>

theorem handleAnswer_points:
  assumes "handleAnswer val now s = Inr s'" and "\<not> showFeedback s"
  shows "results s' = results s @ [last (results s')] \<and>
         timeTaken (last (results s')) = of_int (now - startTimeRef s) / 1000 \<and>
         points (last (results s')) =
           (if isCorrect (last (results s'))
            then max 1 \<lceil>6 * (1 - timeTaken (last (results s')) / 6)\<rceil> else 0) \<and>
         (val = None \<longrightarrow> points (last (results s')) = 0) \<and>
         (isCorrect (last (results s')) \<and> timeTaken (last (results s')) = 0
            \<longrightarrow> points (last (results s')) = 6) \<and>
         (isCorrect (last (results s')) \<and> timeTaken (last (results s')) = 6
            \<longrightarrow> points (last (results s')) = 1)"
proof -
  from assms obtain q r where
    r: "r = \<lparr>question = q, userAnswer = val, isCorrect = strict_eq val (q_answer q),
               timeTaken = rat_of_int (now - startTimeRef s) / 1000,
               points = (if strict_eq val (q_answer q)
                         then max 1 \<lceil>6 * (1 - (rat_of_int (now - startTimeRef s) / 1000) / 6)\<rceil>
                         else 0)\<rparr>"
    and res: "results s' = results s @ [r]"
    by (rule handleAnswer_InrE) simp
  have last: "last (results s') = r" by (simp add: res)
  have t0: "points r = 6" if "isCorrect r" "timeTaken r = 0"
    using that by (simp add: r)
  have t6: "points r = 1" if "isCorrect r" "timeTaken r = 6"
    using that by (simp add: r)
  have none: "points r = 0" if "val = None"
    using that by (simp add: r)
  have formula: "points r = (if isCorrect r then max 1 \<lceil>6 * (1 - timeTaken r / 6)\<rceil> else 0)"
    by (simp add: r)
  have tt: "timeTaken r = of_int (now - startTimeRef s) / 1000"
    by (simp add: r)
  show ?thesis
    unfolding last using res t0 t6 none formula tt by blast
qed

theorem handleAnswer_points_witness:
  "\<not> showFeedback sample_playing \<and>
   handleAnswer (Some (Num 42)) 0 sample_playing
     = Inr (projr (handleAnswer (Some (Num 42)) 0 sample_playing)) \<and>
   points (last (results (projr (handleAnswer (Some (Num 42)) 0 sample_playing)))) = 6 \<and>
   handleAnswer (Some (Num 42)) 6000 sample_playing
     = Inr (projr (handleAnswer (Some (Num 42)) 6000 sample_playing)) \<and>
   points (last (results (projr (handleAnswer (Some (Num 42)) 6000 sample_playing)))) = 1 \<and>
   handleAnswer (Some (Num 41)) 1000 sample_playing
     = Inr (projr (handleAnswer (Some (Num 41)) 1000 sample_playing)) \<and>
   points (last (results (projr (handleAnswer (Some (Num 41)) 1000 sample_playing)))) = 0"
proof -
  have f: "\<not> showFeedback sample_playing" by (simp add: sample_playing_simps)
  have a: "handleAnswer v t sample_playing = Inr (projr (handleAnswer v t sample_playing))" for v t
    by (simp add: handleAnswer_fresh [OF f sample_playing_currentQ refl])
  have c: "isCorrect (last (results (projr (handleAnswer (Some (Num 42)) t sample_playing))))"
    and tt: "timeTaken (last (results (projr (handleAnswer v t sample_playing)))) = of_int t / 1000"
    and w: "\<not> isCorrect (last (results (projr (handleAnswer (Some (Num 41)) t sample_playing))))" for v t
    by (simp_all add: handleAnswer_fresh [OF f sample_playing_currentQ refl] sample_question_def
        sample_playing_simps)
  show ?thesis
    using f a c [of 0] c [of 6000] tt [of "Some (Num 42)" 0] tt [of "Some (Num 42)" 6000]
      w [of 1000]
      handleAnswer_points [OF a [of "Some (Num 42)" 0] f]
      handleAnswer_points [OF a [of "Some (Num 42)" 6000] f]
      handleAnswer_points [OF a [of "Some (Num 41)" 1000] f]
    by simp
qed

text \<open>
  C4. The result that answer evaluation appends is for the current question, records the
  submitted value, and is correct if and only if the submitted value is a number and the
  question's answer is that same number.  No answer (\<open>null\<close>, the timer ran out) is never
  correct: it is recorded as an incorrect result with the timeout feedback.
\<close>

theorem handleAnswer_isCorrect:
  assumes "handleAnswer val now s = Inr s'" and "\<not> showFeedback s"
  shows "results s' = results s @ [last (results s')] \<and>
         js_index (questions s) (int (currentIndex s)) = Some (question (last (results s'))) \<and>
         userAnswer (last (results s')) = val \<and>
         (isCorrect (last (results s')) \<longleftrightarrow>
            (\<exists>n. val = Some (Num n) \<and> q_answer (question (last (results s'))) = Num n)) \<and>
         (val = None \<longrightarrow> \<not> isCorrect (last (results s')) \<and> feedbackType s' = Some Timeout)"
proof -
  from assms obtain q r where q: "js_index (questions s) (int (currentIndex s)) = Some q"
    and r: "r = \<lparr>question = q, userAnswer = val, isCorrect = strict_eq val (q_answer q),
               timeTaken = rat_of_int (now - startTimeRef s) / 1000,
               points = (if strict_eq val (q_answer q)
                         then max 1 \<lceil>6 * (1 - (rat_of_int (now - startTimeRef s) / 1000) / 6)\<rceil>
                         else 0)\<rparr>"
    and res: "results s' = results s @ [r]"
    and fb: "feedbackType s' = Some (if strict_eq val (q_answer q) then Correct
                    else if val = None then Timeout else Wrong)"
    by (rule handleAnswer_InrE) simp
  have last: "last (results s') = r" by (simp add: res)
  have "question r = q" "userAnswer r = val" "isCorrect r = strict_eq val (q_answer q)"
    by (simp_all add: r)
  then show ?thesis
    unfolding last using res q fb by (auto simp: strict_eq_iff)
qed

theorem handleAnswer_isCorrect_witness:
  "\<not> showFeedback sample_playing \<and>
   handleAnswer None 6000 sample_playing = Inr (projr (handleAnswer None 6000 sample_playing)) \<and>
   userAnswer (last (results (projr (handleAnswer None 6000 sample_playing)))) = None \<and>
   \<not> isCorrect (last (results (projr (handleAnswer None 6000 sample_playing)))) \<and>
   handleAnswer (Some (Num 42)) 900 sample_playing
     = Inr (projr (handleAnswer (Some (Num 42)) 900 sample_playing)) \<and>
   isCorrect (last (results (projr (handleAnswer (Some (Num 42)) 900 sample_playing)))) \<and>
   handleAnswer (Some NaN) 900 sample_playing
     = Inr (projr (handleAnswer (Some NaN) 900 sample_playing)) \<and>
   \<not> isCorrect (last (results (projr (handleAnswer (Some NaN) 900 sample_playing))))"
proof -
  have f: "\<not> showFeedback sample_playing" by (simp add: sample_playing_simps)
  have a: "handleAnswer v t sample_playing = Inr (projr (handleAnswer v t sample_playing))" for v t
    by (simp add: handleAnswer_fresh [OF f sample_playing_currentQ refl])
  have q: "js_index (questions sample_playing) (int (currentIndex sample_playing)) = Some sample_question"
    by (rule sample_playing_currentQ)
  show ?thesis
    using f a q
      handleAnswer_isCorrect [OF a [of None 6000] f]
      handleAnswer_isCorrect [OF a [of "Some (Num 42)" 900] f]
      handleAnswer_isCorrect [OF a [of "Some NaN" 900] f]
    by (simp add: sample_question_def)
qed

text \<open>
  C7. Once a question has been answered, the feedback is shown, and any further
  submission for it changes nothing: neither a direct call of \<open>handleAnswer\<close> nor the
  OK button, the Enter key, a change of the input field, a digit of the number pad or a
  tick of the countdown alters any part of the state.
\<close>

theorem handleAnswer_duplicate_noop:
  assumes "handleAnswer val now s = Inr s'" and "\<not> showFeedback s"
  shows "handleAnswer val' now' s' = Inr s' \<and>
         step (ClickOK v now') s' = Inr s' \<and>
         step (PressEnter v now') s' = Inr s' \<and>
         step (InputChange text v now') s' = Inr s' \<and>
         step (ClickDigit c v now') s' = Inr s' \<and>
         step (Tick now') s' = Inr s'"
proof -
  from assms have fb: "showFeedback s'"
    by (rule handleAnswer_InrE) simp
  then show ?thesis
    by (simp add: handleAnswer_feedback timerRunning_def split: option.splits)
qed

theorem handleAnswer_duplicate_noop_witness:
  "\<not> showFeedback sample_playing \<and>
   handleAnswer (Some (Num 42)) 500 sample_playing
     = Inr (projr (handleAnswer (Some (Num 42)) 500 sample_playing)) \<and>
   length (results (projr (handleAnswer (Some (Num 42)) 500 sample_playing))) = 1 \<and>
   handleAnswer (Some (Num 41)) 700 (projr (handleAnswer (Some (Num 42)) 500 sample_playing))
     = Inr (projr (handleAnswer (Some (Num 42)) 500 sample_playing)) \<and>
   step (ClickOK (Num 41) 700) (projr (handleAnswer (Some (Num 42)) 500 sample_playing))
     = Inr (projr (handleAnswer (Some (Num 42)) 500 sample_playing))"
proof -
  have f: "\<not> showFeedback sample_playing" by (simp add: sample_playing_simps)
  have a: "handleAnswer (Some (Num 42)) 500 sample_playing
     = Inr (projr (handleAnswer (Some (Num 42)) 500 sample_playing))"
    by (simp add: handleAnswer_fresh [OF f sample_playing_currentQ refl])
  have l: "length (results (projr (handleAnswer (Some (Num 42)) 500 sample_playing))) = 1"
    by (simp add: handleAnswer_fresh [OF f sample_playing_currentQ refl] sample_playing_simps)
  show ?thesis
    using f a l handleAnswer_duplicate_noop [OF a f, of "Some (Num 41)" 700 "Num 41"]
    by simp
qed

section \<open>Starting a session\<close>

text \<open>
  C6. The start button is disabled while no table is selected: the click is a no-op that
  returns the unchanged state and never a fault.  A click that enters the playing mode
  or generates questions implies that a table was selected.
\<close>

theorem clickStart_empty_noop:
  "(selectedTables s = [] \<longrightarrow> step (ClickStart rnd now) s = Inr s) \<and>
   (\<exists>s'. step (ClickStart rnd now) s = Inr s' \<and>
      (mode s' = PLAYING \<and> mode s \<noteq> PLAYING \<longrightarrow> selectedTables s \<noteq> []) \<and>
      (questions s' \<noteq> questions s \<longrightarrow> selectedTables s \<noteq> []))"
  by (auto simp: startSession_def resetQuestionState_def)

theorem clickStart_empty_noop_witness:
  "mode sample_setup = PRACTICE_SETUP \<and> selectedTables sample_setup = [] \<and>
   step (ClickStart (\<lambda>k. 1 / 2) 0) sample_setup = Inr sample_setup \<and>
   mode (projr (step (ClickStart (\<lambda>k. 1 / 2) 0) (sample_setup\<lparr>selectedTables := [7]\<rparr>))) = PLAYING"
proof -
  have m: "mode sample_setup = PRACTICE_SETUP" and e: "selectedTables sample_setup = []"
    by (simp_all add: sample_setup_def init_def)
  have p: "mode (projr (step (ClickStart (\<lambda>k. 1 / 2) 0) (sample_setup\<lparr>selectedTables := [7]\<rparr>))) = PLAYING"
    by (simp add: m startSession_def resetQuestionState_def)
  show ?thesis
    using m e p clickStart_empty_noop [of sample_setup "\<lambda>k. 1 / 2" 0]
    by simp
qed

section \<open>The state between events\<close>










section \<open>The sample session\<close>

lemma run_append:
  "run (es @ fs) s = (case run es s of Inl x \<Rightarrow> Inl x | Inr s' \<Rightarrow> run fs s')"
  by (induction es arbitrary: s) (auto split: sum.splits)


lemma run_sample_start: "run sample_start (init []) = Inr sample_playing"
  by (simp add: sample_start_def sample_playing_def init_def toggleTable_def startSession_def
      resetQuestionState_def)


lemma currentQ_sample_playing: "currentQ sample_playing = Some sample_question"
  using sample_playing_currentQ by (simp add: currentQ_def sample_playing_simps)

lemma ceiling_eleven_halves: "\<lceil>11 / 2 :: rat\<rceil> = 6"
  by (simp add: ceiling_eq_iff)

lemma sample_answered:
  "handleAnswer (Some (Num 42)) 500 sample_playing =
     Inr (sample_playing\<lparr>feedbackType := Some Correct,
            results := [sample_result True 6],
            lastFeedback := Some (True, Num 42),
            showFeedback := True,
            pending := [\<lparr>p_delay = 800,
                          p_env = \<lparr>c_currentIndex = 0,
                                    c_questions = generateQuestions TEST [7] (\<lambda>k. 1 / 2),
                                    c_playType = TEST\<rparr>,
                          p_results = [sample_result True 6]\<rparr>]\<rparr>)"
  by (simp add: handleAnswer_fresh [OF _ sample_playing_currentQ refl] sample_playing_simps
      sample_question_def sample_result_def ceiling_eleven_halves)


lemma sample_after_0: "sample_after 0 = sample_playing"
  by (simp add: sample_after_def sample_playing_def startSession_def resetQuestionState_def init_def)

lemma sample_after_simps:
  "mode (sample_after k) = PLAYING" "playType (sample_after k) = TEST"
  "questions (sample_after k) = generateQuestions TEST [7] (\<lambda>k. 1 / 2)"
  "currentIndex (sample_after k) = k" "results (sample_after k) = replicate k (sample_result True 6)"
  "showFeedback (sample_after k) = False" "startTimeRef (sample_after k) = 1300 * int k"
  "pending (sample_after k) = []" "history (sample_after k) = []"
  by (simp_all add: sample_after_def sample_playing_simps)

lemma sample_after_answered:
  assumes "k < 40"
  shows "handleAnswer (Some (Num 42)) (1300 * int k + 500) (sample_after k) =
     Inr ((sample_after k)\<lparr>feedbackType := Some Correct,
            results := replicate (Suc k) (sample_result True 6),
            lastFeedback := Some (True, Num 42),
            showFeedback := True,
            pending := [\<lparr>p_delay = 800,
                          p_env = \<lparr>c_currentIndex = k,
                                    c_questions = generateQuestions TEST [7] (\<lambda>k. 1 / 2),
                                    c_playType = TEST\<rparr>,
                          p_results = replicate (Suc k) (sample_result True 6)\<rparr>]\<rparr>)"
proof -
  have q: "js_index (questions (sample_after k)) (int (currentIndex (sample_after k)))
             = Some sample_question"
    using assms by (simp add: sample_after_simps sample_generate)
  have f: "\<not> showFeedback (sample_after k)" by (simp add: sample_after_simps)
  show ?thesis
    by (simp add: handleAnswer_fresh [OF f q refl] sample_after_simps sample_question_def
        sample_result_def ceiling_eleven_halves replicate_append_same)
qed

lemma currentQ_sample_after: "k < 40 \<Longrightarrow> currentQ (sample_after k) = Some sample_question"
  by (simp add: currentQ_def sample_after_simps sample_generate)

lemma run_sample_round:
  assumes "k < 39"
  shows "run (sample_round k) (sample_after k) = Inr (sample_after (Suc k))"
proof -
  from assms have k: "k < 40" by simp
  let ?a = "(sample_after k)\<lparr>feedbackType := Some Correct,
            results := replicate (Suc k) (sample_result True 6),
            lastFeedback := Some (True, Num 42),
            showFeedback := True,
            pending := [\<lparr>p_delay = 800,
                          p_env = \<lparr>c_currentIndex = k,
                                    c_questions = generateQuestions TEST [7] (\<lambda>k. 1 / 2),
                                    c_playType = TEST\<rparr>,
                          p_results = replicate (Suc k) (sample_result True 6)\<rparr>]\<rparr>"
  have answer: "step (ClickOK (Num 42) (1300 * int k + 500)) (sample_after k) = Inr ?a"
    by (simp add: currentQ_sample_after [OF k] sample_after_answered [OF k])
  have expire: "step (TimeoutFire 0 (1300 * int k + 1300)) ?a = Inr (sample_after (Suc k))"
    using assms
    by (simp add: nextQuestion_def resetQuestionState_def length_generateQuestions
        sample_after_def sample_playing_def startSession_def init_def algebra_simps)
  show ?thesis
    by (simp only: sample_round_def run.simps answer expire sum.case)
qed

lemma run_sample_rounds:
  "n \<le> 39 \<Longrightarrow> run (sample_rounds n) sample_playing = Inr (sample_after n)"
proof (induction n)
  case 0
  then show ?case by (simp add: sample_rounds_def sample_after_0)
next
  case (Suc n)
  then have "run (sample_rounds n) sample_playing = Inr (sample_after n)" and "n < 39"
    by simp_all
  then show ?case
    by (simp add: sample_rounds_def run_append run_sample_round)
qed

section \<open>Results and index while playing\<close>




section \<open>Leaving a session during the feedback delay\<close>

text \<open>
  C9. The countdown interval stops when the playing screen is left, but the callback that
  \<open>handleAnswer\<close> arms with \<open>setTimeout\<close> is never cancelled.  After an answer to the
  first question and a click on the logo the mode is Menu, the interval is off and one
  callback is still armed; when it runs, the index advances to 1 although no session is
  being played.  The same after the answer to the 40th question: the abandoned session's
  callback switches the mode from Menu to Results and writes a history entry.
\<close>

theorem abandoned_feedback_delay_fires:
  "run (sample_start @ [ClickOK (Num 42) 500, ClickLogo]) (init [])
     = Inr (projr (run (sample_start @ [ClickOK (Num 42) 500, ClickLogo]) (init []))) \<and>
   mode (projr (run (sample_start @ [ClickOK (Num 42) 500, ClickLogo]) (init []))) = MENU \<and>
   currentIndex (projr (run (sample_start @ [ClickOK (Num 42) 500, ClickLogo]) (init []))) = 0 \<and>
   length (pending (projr (run (sample_start @ [ClickOK (Num 42) 500, ClickLogo]) (init [])))) = 1 \<and>
   \<not> timerRunning (projr (run (sample_start @ [ClickOK (Num 42) 500, ClickLogo]) (init []))) \<and>
   run (sample_start @ [ClickOK (Num 42) 500, ClickLogo, TimeoutFire 0 1300]) (init [])
     = Inr (projr (run (sample_start @ [ClickOK (Num 42) 500, ClickLogo, TimeoutFire 0 1300]) (init []))) \<and>
   mode (projr (run (sample_start @ [ClickOK (Num 42) 500, ClickLogo, TimeoutFire 0 1300]) (init []))) = MENU \<and>
   currentIndex (projr (run (sample_start @ [ClickOK (Num 42) 500, ClickLogo, TimeoutFire 0 1300]) (init []))) = 1 \<and>
   run (sample_start @ sample_rounds 39 @ [ClickOK (Num 42) 51200, ClickLogo]) (init [])
     = Inr (projr (run (sample_start @ sample_rounds 39 @ [ClickOK (Num 42) 51200, ClickLogo]) (init []))) \<and>
   mode (projr (run (sample_start @ sample_rounds 39 @ [ClickOK (Num 42) 51200, ClickLogo]) (init []))) = MENU \<and>
   history (projr (run (sample_start @ sample_rounds 39 @ [ClickOK (Num 42) 51200, ClickLogo]) (init []))) = [] \<and>
   run (sample_start @ sample_rounds 39 @ [ClickOK (Num 42) 51200, ClickLogo, TimeoutFire 0 52000]) (init [])
     = Inr (projr (run (sample_start @ sample_rounds 39 @ [ClickOK (Num 42) 51200, ClickLogo, TimeoutFire 0 52000]) (init []))) \<and>
   mode (projr (run (sample_start @ sample_rounds 39 @ [ClickOK (Num 42) 51200, ClickLogo, TimeoutFire 0 52000]) (init []))) = RESULTS \<and>
   length (history (projr (run (sample_start @ sample_rounds 39 @ [ClickOK (Num 42) 51200, ClickLogo, TimeoutFire 0 52000]) (init [])))) = 1"
proof -
  have first: "run (sample_start @ es) (init []) = run es sample_playing" for es
    by (simp add: run_append run_sample_start)
  have last: "run (sample_rounds 39 @ es) sample_playing = run es (sample_after 39)" for es
    by (simp add: run_append run_sample_rounds)
  have k: "(39::nat) < 40" by simp
  show ?thesis
    unfolding first last
    using sample_after_answered [OF k]
    by (simp add: currentQ_sample_playing sample_answered currentQ_sample_after
        sample_playing_simps sample_after_simps nextQuestion_def resetQuestionState_def
        length_generateQuestions timerRunning_def Let_def)
qed

theorem abandoned_feedback_delay_fires_witness:
  "mode (projr (run (sample_start @ sample_rounds 39 @
      [ClickOK (Num 42) 51200, ClickLogo, TimeoutFire 0 52000]) (init []))) = RESULTS \<and>
   currentIndex (projr (run (sample_start @
      [ClickOK (Num 42) 500, ClickLogo, TimeoutFire 0 1300]) (init []))) = 1"
  using abandoned_feedback_delay_fires by blast

end
